theory Spec2Isabelle
  imports Complex_Main "HOL-Library.Sublist" "HOL-Library.Multiset"
begin

section \<open>Python strings\<close>

text \<open>
  A Python \<open>str\<close> is a sequence of Unicode code points. The characters of the model
  are the code points 0 to 255 (Latin-1), written \<open>Latin1 c\<close>, and the code point
  U+03D2 (GREEK UPSILON WITH HOOK SYMBOL), an upper-case letter that has no lower-case
  form. On these characters \<open>str.lower()\<close> works character by character. File names
  and extensions, whose case the program inspects, are such strings (\<open>pystr\<close>); text
  that the program only copies, joins or compares with ASCII literals is a plain
  \<open>string\<close> of Latin-1 characters. A value that may be \<open>None\<close> is an \<open>option\<close>.
\<close>

datatype cp = Latin1 char | U03D2

type_synonym pystr = "cp list"

definition latin1 :: "string \<Rightarrow> pystr" where
  "latin1 s = map Latin1 s"

text \<open>
  \<open>c.isupper()\<close> for one character: \<open>A\<close> to \<open>Z\<close>, the Latin-1 capitals U+00C0 to
  U+00DE other than the multiplication sign U+00D7, and U+03D2.
\<close>

definition is_upper_latin1 :: "char \<Rightarrow> bool" where
  "is_upper_latin1 c =
     ((65 \<le> (of_char c :: nat) \<and> (of_char c :: nat) \<le> 90) \<or>
      (192 \<le> (of_char c :: nat) \<and> (of_char c :: nat) \<le> 222 \<and> (of_char c :: nat) \<noteq> 215))"


text \<open>
  \<open>c.lower()\<close> for one character: an upper-case letter of Latin-1 moves 32 code
  points up, to its lower-case form; every other character, U+03D2 included, stays.
\<close>

fun lower_char :: "cp \<Rightarrow> cp" where
  "lower_char (Latin1 c) =
     (if is_upper_latin1 c then Latin1 (char_of ((of_char c :: nat) + 32)) else Latin1 c)"
| "lower_char U03D2 = U03D2"

definition lower :: "pystr \<Rightarrow> pystr" where
  "lower s = map lower_char s"

text \<open>\<open>s.endswith(ext)\<close>: the last \<open>len(ext)\<close> characters of \<open>s\<close> are \<open>ext\<close>.\<close>

definition endswith :: "'a list \<Rightarrow> 'a list \<Rightarrow> bool" where
  "endswith s ext = (length ext \<le> length s \<and> drop (length s - length ext) s = ext)"

text \<open>\<open>s.startswith(p)\<close>: the first \<open>len(p)\<close> characters of \<open>s\<close> are \<open>p\<close>.\<close>

definition startswith :: "'a list \<Rightarrow> 'a list \<Rightarrow> bool" where
  "startswith s p = (length p \<le> length s \<and> take (length p) s = p)"

text \<open>Truthiness of a value that is \<open>None\<close> or a \<open>str\<close>: \<open>None\<close> and \<open>''\<close> are falsy.\<close>

definition truthy :: "'a list option \<Rightarrow> bool" where
  "truthy v = (case v of None \<Rightarrow> False | Some s \<Rightarrow> s \<noteq> [])"

section \<open>The attachment classifier\<close>

text \<open>The list that \<open>is_target_file\<close> uses when \<open>file_types\<close> is \<open>None\<close>.\<close>

definition default_file_types :: "pystr list" where
  "default_file_types =
     map latin1
       [''.ex4'', ''.ex5'', ''.mq4'', ''.mq5'',
        ''.zip'', ''.rar'', ''.7z'',
        ''.pdf'', ''.doc'', ''.docx'', ''.txt'',
        ''.jpg'', ''.jpeg'', ''.png'', ''.gif'',
        ''.mp4'', ''.avi'', ''.mkv'',
        ''.py'', ''.js'', ''.html'']"

text \<open>
  \<open>TelegramFileScraper.is_target_file(filename, file_types=None)\<close>. The generator
  expression under \<open>any\<close> is \<open>list_ex\<close> over the list, in its order.
\<close>

definition is_target_file :: "pystr option \<Rightarrow> pystr list option \<Rightarrow> bool" where
  "is_target_file filename file_types =
     (case filename of
        None \<Rightarrow> False
      | Some fn \<Rightarrow>
          if fn = [] then False
          else
            let file_types' =
                  (case file_types of None \<Rightarrow> default_file_types | Some l \<Rightarrow> l);
                filename_lower = lower fn
            in list_ex (\<lambda>ext. endswith filename_lower ext) file_types')"

section \<open>Rendering values as text\<close>

text \<open>\<open>str(n)\<close> for a Python \<open>int\<close>: decimal digits, a minus sign when negative.\<close>

fun str_nat :: "nat \<Rightarrow> string" where
  "str_nat n =
     (if n < 10 then [char_of (48 + n)]
      else str_nat (n div 10) @ [char_of (48 + n mod 10)])"

declare str_nat.simps [simp del]

definition str_int :: "int \<Rightarrow> string" where
  "str_int i = (if i < 0 then ''-'' @ str_nat (nat (- i)) else str_nat (nat i))"

text \<open>
  How an f-string renders a value that is \<open>None\<close> or a \<open>str\<close>: \<open>None\<close> is rendered as
  the text \<open>None\<close>.
\<close>

definition fmt :: "string option \<Rightarrow> string" where
  "fmt v = (case v of None \<Rightarrow> ''None'' | Some s \<Rightarrow> s)"

text \<open>
  \<open>s.replace(old, new)\<close>: every non-overlapping occurrence of \<open>old\<close>, from the left.
  With an empty \<open>old\<close>, Python puts \<open>new\<close> before every character and at the end.
\<close>

fun replace_from :: "string \<Rightarrow> string \<Rightarrow> nat \<Rightarrow> string \<Rightarrow> string" where
  "replace_from old new skip [] = []"
| "replace_from old new (Suc k) (c # cs) = replace_from old new k cs"
| "replace_from old new 0 (c # cs) =
     (if prefix old (c # cs) then new @ replace_from old new (length old - 1) cs
      else c # replace_from old new 0 cs)"

definition replace :: "string \<Rightarrow> string \<Rightarrow> string \<Rightarrow> string" where
  "replace s old new =
     (if old = [] then new @ concat (map (\<lambda>c. c # new) s)
      else replace_from old new 0 s)"

text \<open>
  \<open>round(x, 2)\<close>. Floating point is not modelled: a size in MB is the rational number
  with two decimals that Python's float is nearest to. \<open>size / (1024 * 1024)\<close> is exact
  in binary floating point (a division by a power of two), and \<open>round\<close> rounds the
  exact value to two decimals, a tie going to the even digit.
\<close>

definition round_half_even :: "rat \<Rightarrow> int" where
  "round_half_even x =
     (let f = \<lfloor>x\<rfloor>; d = x - of_int f
      in if d < 1 / 2 then f
         else if 1 / 2 < d then f + 1
         else if even f then f else f + 1)"

definition py_round2 :: "rat \<Rightarrow> rat" where
  "py_round2 x = of_int (round_half_even (x * 100)) / 100"

text \<open>
  \<open>sorted(xs, key=key, reverse=True)\<close>: Python's sort is stable, and with
  \<open>reverse=True\<close> it reverses the list, sorts it stably in ascending order of the key
  and reverses the result. \<open>sort_key\<close> is a stable insertion sort.
\<close>

definition py_sorted_reverse :: "('a \<Rightarrow> 'k::linorder) \<Rightarrow> 'a list \<Rightarrow> 'a list" where
  "py_sorted_reverse key xs = rev (sort_key key (rev xs))"

section \<open>Messages as the client library delivers them\<close>

text \<open>
  An attribute that the code probes with \<open>hasattr\<close>: the object may lack it
  (\<open>Missing\<close>), or have it with the value \<open>None\<close> or a \<open>str\<close>.
\<close>

datatype 'a attr = Missing | Has "'a option"

text \<open>
  The sender of a message: a user has the attributes \<open>first_name\<close>, \<open>last_name\<close> and
  \<open>username\<close> (each possibly \<open>None\<close>); a channel has \<open>username\<close> and neither of
  the names.
\<close>

record peer =
  first_name :: "string attr"
  last_name :: "string attr"
  username :: "string attr"

record datetime =
  year :: nat
  month :: nat
  day :: nat
  hour :: nat
  minute :: nat
  second :: nat

datatype doc_attribute = DocumentAttributeFilename pystr | DocumentAttributeOther

text \<open>
  A document: its attribute list, the \<open>name\<close> property that the code probes with
  \<open>hasattr\<close>, and its size in bytes (\<open>None\<close> when unknown).
\<close>

record document =
  doc_attributes :: "doc_attribute list"
  doc_name :: "pystr attr"
  doc_size :: "nat option"

text \<open>
  The media of a message: a \<open>MessageMediaDocument\<close>, whose \<open>document\<close> may be
  \<open>None\<close>, or media of another kind.
\<close>

datatype media = MessageMediaDocument "document option" | MessageMediaOther

record message =
  msg_media :: "media option"
  msg_id :: int
  msg_date :: "datetime option"
  msg_sender :: "peer option"
  msg_text :: "string option"

text \<open>\<open>date.strftime('%Y-%m-%d %H:%M:%S')\<close>: zero-padded decimal fields.\<close>

definition zfill :: "nat \<Rightarrow> string \<Rightarrow> string" where
  "zfill w s = replicate (w - length s) (CHR ''0'') @ s"

definition strftime :: "datetime \<Rightarrow> string" where
  "strftime d =
     zfill 4 (str_nat (year d)) @ ''-'' @ zfill 2 (str_nat (month d)) @ ''-'' @
     zfill 2 (str_nat (day d)) @ '' '' @ zfill 2 (str_nat (hour d)) @ '':'' @
     zfill 2 (str_nat (minute d)) @ '':'' @ zfill 2 (str_nat (second d))"

section \<open>Sender resolution\<close>

text \<open>
  \<open>TelegramFileScraper._get_sender_name(message)\<close>. The result is a Python value
  that is \<open>None\<close> or a \<open>str\<close>: the branch \<open>return message.sender.first_name\<close> returns
  the attribute as it is.
\<close>

definition get_sender_name :: "message \<Rightarrow> string option" where
  "get_sender_name message =
     (case msg_sender message of
        None \<Rightarrow> Some ''Unknown''
      | Some sender \<Rightarrow>
          (case first_name sender of
             Has fst_name \<Rightarrow>
               (case last_name sender of
                  Has lst_name \<Rightarrow>
                    if truthy lst_name then Some (fmt fst_name @ '' '' @ fmt lst_name)
                    else fst_name
                | Missing \<Rightarrow> fst_name)
           | Missing \<Rightarrow>
               (case username sender of
                  Has usr_name \<Rightarrow>
                    if truthy usr_name then Some (''@'' @ fmt usr_name) else Some ''Unknown''
                | Missing \<Rightarrow> Some ''Unknown'')))"

section \<open>The record builder\<close>

text \<open>The channel identifier: a username or URL (a \<open>str\<close>), or a numeric id.\<close>

datatype group_id = IdStr string | IdInt int

text \<open>One entry of \<open>self.files\<close>: the dictionary built in \<open>scrape_group\<close>, key by key.\<close>

record file_info =
  fi_filename :: pystr
  fi_message_id :: int
  fi_date :: string
  fi_sender :: "string option"
  fi_caption :: string
  fi_file_size_mb :: rat
  fi_message_url :: string

text \<open>The conditional expression under the key \<open>message_url\<close>.\<close>

definition message_url_of :: "group_id \<Rightarrow> int \<Rightarrow> string" where
  "message_url_of group_identifier mid =
     (case group_identifier of
        IdStr g \<Rightarrow>
          if \<not> startswith g ''http'' then ''https://t.me/'' @ g @ ''/'' @ str_int mid
          else str_int mid
      | IdInt n \<Rightarrow> str_int mid)"

text \<open>The loop over \<open>doc.attributes\<close>: the first filename attribute wins.\<close>

fun find_filename :: "doc_attribute list \<Rightarrow> pystr option" where
  "find_filename [] = None"
| "find_filename (DocumentAttributeFilename n # rest) = Some n"
| "find_filename (DocumentAttributeOther # rest) = find_filename rest"

definition resolve_filename :: "document \<Rightarrow> pystr option" where
  "resolve_filename doc =
     (let found = find_filename (doc_attributes doc)
      in if \<not> truthy found then (case doc_name doc of Has v \<Rightarrow> v | Missing \<Rightarrow> found)
         else found)"

definition build_file_info :: "group_id \<Rightarrow> message \<Rightarrow> document \<Rightarrow> pystr \<Rightarrow> file_info" where
  "build_file_info group_identifier message doc fname =
     \<lparr>fi_filename = fname,
      fi_message_id = msg_id message,
      fi_date = (case msg_date message of Some d \<Rightarrow> strftime d | None \<Rightarrow> []),
      fi_sender = get_sender_name message,
      fi_caption = take 500 (case msg_text message of Some t \<Rightarrow> t | None \<Rightarrow> []),
      fi_file_size_mb =
        (case doc_size doc of
           Some n \<Rightarrow> if n \<noteq> 0 then py_round2 (of_nat n / 1048576) else 0
         | None \<Rightarrow> 0),
      fi_message_url = message_url_of group_identifier (msg_id message)\<rparr>"

section \<open>Exceptions, console output and effects\<close>

text \<open>
  The exceptions of the modelled call sites, all of them subclasses of \<open>Exception\<close>:
  the ones the program raises itself or by touching a missing attribute or an unbound
  local variable, \<open>OSError\<close> for what the file system raises (a directory that does
  not exist, a refused permission, a full disk), and \<open>ClientError\<close> for whatever
  the client library raises (a failed
  connection, a refused authorisation, an identifier that resolves to nothing, a
  network error in the middle of the message stream).
\<close>

datatype exn =
    ValueError string
  | AttributeError string
  | UnboundLocalError string
  | OSError string
  | ClientError string

text \<open>
  The lines that the program prints, one constructor for each \<open>print\<close> statement,
  carrying the values that the line interpolates.
\<close>

datatype line =
    Rule
  | Banner
  | Connecting
  | AuthorizationRequired
  | Authorized
  | Connected
  | ScrapingGroup group_id
  | ScanningLast int
  | GroupTitle "string option"
  | ErrorGettingGroup exn
  | FoundFile nat pystr rat
  | FoundCount nat
  | NoFilesToExport
  | ExportedTo string
  | SummaryHeading
  | TotalFiles nat
  | TotalSize rat
  | ByExtensionHeading
  | ExtensionCount pystr nat
  | TopLargestHeading
  | TopLargestEntry nat pystr rat
  | Disconnected
  | ErrorLine exn

text \<open>
  What a file holds after an export. The serialisation itself is the library's: the
  model keeps what is handed to it (for CSV the column names and the rows, for JSON
  the list).
\<close>

datatype file_content = CsvFile "string list" "file_info list" | JsonFile "file_info list"

text \<open>
  The effects of a run, in the order in which they happen: a printed line, a printed
  traceback, a call of the client's \<open>connect\<close>, \<open>start\<close> or \<open>disconnect\<close>, a file
  opened for writing and filled, and a file opened for writing (so created or
  emptied) whose content could not be written.
\<close>

datatype effect =
    Print line
  | PrintTraceback exn
  | ClientConnect
  | ClientStart "string option"
  | ClientDisconnect
  | FileWrite string file_content
  | FileTruncated string

text \<open>
  The file system is an external collaborator as well: for a path, what happens when
  the program opens it with mode \<open>w\<close> and writes to it. Either both succeed, or
  \<open>open\<close> raises (nothing is created or changed), or writing raises after the file
  was opened.
\<close>

datatype io_outcome = IoOk | OpenRaises exn | WriteRaises exn

type_synonym filesystem = "string \<Rightarrow> io_outcome"

text \<open>What \<open>get_entity\<close> returns: an object whose \<open>title\<close> the code reads.\<close>

record entity =
  entity_id :: int
  title :: "string attr"

text \<open>
  The session client is an external collaborator: the model takes its answers as
  given. A call that can raise answers with an exception or a value; the message
  stream yields a list of messages and may then fail.
\<close>

record client =
  connect_result :: "exn option"
  is_user_authorized :: "exn + bool"
  start_result :: "exn option"
  get_entity :: "group_id \<Rightarrow> exn + entity"
  iter_messages :: "entity \<Rightarrow> int \<Rightarrow> message list \<times> exn option"
  disconnect_result :: "exn option"

text \<open>The module constants read from \<open>config.py\<close> (\<open>None\<close> when it is absent).\<close>

record config =
  API_ID :: "int option"
  API_HASH :: "string option"
  PHONE_NUMBER :: "string option"

text \<open>
  The state that the methods of \<open>TelegramFileScraper\<close> work on: \<open>self.files\<close> (the
  Collector) and the effects so far. A method returns its result (\<open>Inl\<close> an exception
  that it raises, \<open>Inr\<close> a normal return) together with the state it leaves, since
  what a method did before raising stays done.
\<close>

record state =
  files :: "file_info list"
  trace :: "effect list"

definition emit :: "effect \<Rightarrow> state \<Rightarrow> state" where
  "emit e s = s\<lparr>trace := trace s @ [e]\<rparr>"

section \<open>The scraper\<close>

text \<open>\<open>TelegramFileScraper.__init__\<close>: the credentials check, then an empty Collector.\<close>

definition credentials_configured :: "config \<Rightarrow> bool" where
  "credentials_configured cfg =
     ((case API_ID cfg of None \<Rightarrow> False | Some n \<Rightarrow> n \<noteq> 0) \<and> truthy (API_HASH cfg))"

definition init :: "config \<Rightarrow> effect list \<Rightarrow> exn + state" where
  "init cfg t =
     (if \<not> credentials_configured cfg
      then Inl (ValueError ''API credentials not configured. Check config.py'')
      else Inr \<lparr>files = [], trace = t\<rparr>)"

text \<open>\<open>TelegramFileScraper.connect\<close>.\<close>

definition connect :: "config \<Rightarrow> client \<Rightarrow> state \<Rightarrow> (exn + unit) \<times> state" where
  "connect cfg c s =
     (let s1 = emit ClientConnect (emit (Print Connecting) s)
      in case connect_result c of
           Some e \<Rightarrow> (Inl e, s1)
         | None \<Rightarrow>
             (case is_user_authorized c of
                Inl e \<Rightarrow> (Inl e, s1)
              | Inr True \<Rightarrow> (Inr (), emit (Print Connected) s1)
              | Inr False \<Rightarrow>
                  (let s2 = emit (ClientStart (PHONE_NUMBER cfg))
                              (emit (Print AuthorizationRequired) s1)
                   in case start_result c of
                        Some e \<Rightarrow> (Inl e, s2)
                      | None \<Rightarrow> (Inr (), emit (Print Authorized) s2))))"

text \<open>
  The body of the loop over the messages in \<open>scrape_group\<close>, for one message: the
  count so far and the state before, the new count and the state after. Reading the attributes
  of a document that is \<open>None\<close> raises \<open>AttributeError\<close>. The test \<open>if filename and
  ...\<close> is the test that the filename is neither \<open>None\<close> nor empty.
\<close>

definition process_message ::
  "group_id \<Rightarrow> pystr list option \<Rightarrow> message \<Rightarrow> nat \<Rightarrow> state \<Rightarrow> (exn + nat) \<times> state" where
  "process_message group_identifier file_types message cnt s =
     (case msg_media message of
        Some (MessageMediaDocument d) \<Rightarrow>
          (case d of
             None \<Rightarrow> (Inl (AttributeError ''attributes''), s)
           | Some doc \<Rightarrow>
               (case resolve_filename doc of
                  None \<Rightarrow> (Inr cnt, s)
                | Some fname \<Rightarrow>
                    if fname \<noteq> [] \<and> is_target_file (Some fname) file_types
                    then
                      (let info = build_file_info group_identifier message doc fname;
                           s1 = s\<lparr>files := files s @ [info]\<rparr>
                       in (Inr (cnt + 1),
                           emit (Print (FoundFile (cnt + 1) fname (fi_file_size_mb info))) s1))
                    else (Inr cnt, s)))
      | _ \<Rightarrow> (Inr cnt, s))"

fun scan_messages ::
  "group_id \<Rightarrow> pystr list option \<Rightarrow> message list \<Rightarrow> nat \<Rightarrow> state \<Rightarrow> (exn + nat) \<times> state" where
  "scan_messages group_identifier file_types [] cnt s = (Inr cnt, s)"
| "scan_messages group_identifier file_types (message # rest) cnt s =
     (case process_message group_identifier file_types message cnt s of
        (Inl e, s1) \<Rightarrow> (Inl e, s1)
      | (Inr cnt1, s1) \<Rightarrow> scan_messages group_identifier file_types rest cnt1 s1)"

text \<open>
  The \<open>try\<close> block at the head of \<open>scrape_group\<close>: resolving the identifier and
  reading the title, either of which may raise.
\<close>

definition resolve_entity :: "client \<Rightarrow> group_id \<Rightarrow> exn + (entity \<times> string option)" where
  "resolve_entity c group_identifier =
     (case get_entity c group_identifier of
        Inl e \<Rightarrow> Inl e
      | Inr ent \<Rightarrow>
          (case title ent of
             Missing \<Rightarrow> Inl (AttributeError ''title'')
           | Has group_title \<Rightarrow> Inr (ent, group_title)))"

text \<open>\<open>TelegramFileScraper.scrape_group(group_identifier, limit, file_types)\<close>.\<close>

definition scrape_group ::
  "client \<Rightarrow> group_id \<Rightarrow> int \<Rightarrow> pystr list option \<Rightarrow> state \<Rightarrow> (exn + unit) \<times> state" where
  "scrape_group c group_identifier limit file_types s =
     (let s1 = emit (Print (ScanningLast limit)) (emit (Print (ScrapingGroup group_identifier)) s)
      in case resolve_entity c group_identifier of
           Inl e \<Rightarrow> (Inr (), emit (Print (ErrorGettingGroup e)) s1)
         | Inr (ent, group_title) \<Rightarrow>
             (let s2 = emit (Print (GroupTitle group_title)) s1;
                  stream = iter_messages c ent limit
              in case scan_messages group_identifier file_types (fst stream) 0 s2 of
                   (Inl e, s3) \<Rightarrow> (Inl e, s3)
                 | (Inr cnt, s3) \<Rightarrow>
                     (case snd stream of
                        Some e \<Rightarrow> (Inl e, s3)
                      | None \<Rightarrow> (Inr (), emit (Print (FoundCount cnt)) s3))))"

text \<open>
  \<open>TelegramFileScraper.export_csv\<close> and \<open>export_json\<close>. The printed path is the
  absolute form of \<open>output_path\<close>; the model keeps the path as given. The \<open>with
  open(output_path, 'w', ...)\<close> statement follows the answer of the file system: when
  \<open>open\<close> raises, the exception leaves the method and nothing was written or printed.
\<close>

definition fieldnames :: "string list" where
  "fieldnames =
     [''filename'', ''message_id'', ''date'', ''sender'', ''caption'', ''file_size_mb'',
      ''message_url'']"

definition export_csv :: "filesystem \<Rightarrow> string \<Rightarrow> state \<Rightarrow> (exn + unit) \<times> state" where
  "export_csv fs output_path s =
     (if files s = [] then (Inr (), emit (Print NoFilesToExport) s)
      else
        (case fs output_path of
           OpenRaises e \<Rightarrow> (Inl e, s)
         | WriteRaises e \<Rightarrow> (Inl e, emit (FileTruncated output_path) s)
         | IoOk \<Rightarrow>
             (Inr (),
              emit (Print (ExportedTo output_path))
                (emit (FileWrite output_path (CsvFile fieldnames (files s))) s))))"

definition export_json :: "filesystem \<Rightarrow> string \<Rightarrow> state \<Rightarrow> (exn + unit) \<times> state" where
  "export_json fs output_path s =
     (if files s = [] then (Inr (), emit (Print NoFilesToExport) s)
      else
        (case fs output_path of
           OpenRaises e \<Rightarrow> (Inl e, s)
         | WriteRaises e \<Rightarrow> (Inl e, emit (FileTruncated output_path) s)
         | IoOk \<Rightarrow>
             (Inr (),
              emit (Print (ExportedTo output_path))
                (emit (FileWrite output_path (JsonFile (files s))) s))))"

section \<open>The summary\<close>

text \<open>
  \<open>os.path.splitext(p)[1]\<close> (POSIX): the text from the last dot on, when that dot
  stands after the last slash and some character between the two is not a dot;
  otherwise the empty string. \<open>rfind\<close> gives \<open>-1\<close> when the character is absent.
\<close>

definition rfind :: "'a \<Rightarrow> 'a list \<Rightarrow> int" where
  "rfind c p =
     (case filter (\<lambda>i. p ! i = c) (rev [0..<length p]) of
        [] \<Rightarrow> - 1
      | i # rest \<Rightarrow> int i)"

definition splitext_ext :: "pystr \<Rightarrow> pystr" where
  "splitext_ext p =
     (let sepIndex = rfind (Latin1 (CHR ''/'')) p;
          dotIndex = rfind (Latin1 (CHR ''.'')) p
      in if sepIndex < dotIndex \<and>
            list_ex (\<lambda>i. p ! i \<noteq> Latin1 (CHR ''.'')) [nat (sepIndex + 1)..<nat dotIndex]
         then drop (nat dotIndex) p
         else [])"

text \<open>
  The dictionary \<open>extensions\<close>, in insertion order:
  \<open>extensions[ext] = extensions.get(ext, 0) + 1\<close>.
\<close>

fun bump :: "(pystr \<times> nat) list \<Rightarrow> pystr \<Rightarrow> (pystr \<times> nat) list" where
  "bump [] ext = [(ext, 1)]"
| "bump ((k, n) # rest) ext =
     (if k = ext then (k, n + 1) # rest else (k, n) # bump rest ext)"

definition count_extensions :: "file_info list \<Rightarrow> (pystr \<times> nat) list" where
  "count_extensions fs =
     foldl (\<lambda>extensions f. bump extensions (lower (splitext_ext (fi_filename f)))) [] fs"

text \<open>
  The local \<open>sorted_files\<close> of \<open>print_summary\<close>:
  \<open>sorted(self.files, key=lambda x: x['file_size_mb'], reverse=True)[:10]\<close>.
\<close>

definition sorted_files :: "file_info list \<Rightarrow> file_info list" where
  "sorted_files fs = take 10 (py_sorted_reverse fi_file_size_mb fs)"

text \<open>
  \<open>TelegramFileScraper.print_summary\<close>. The total is the exact sum of the sizes,
  rounded for display. The method reads \<open>self.files\<close> and only prints.
\<close>

definition print_summary :: "state \<Rightarrow> (exn + unit) \<times> state" where
  "print_summary s =
     (if files s = [] then (Inr (), s)
      else
        (let extensions = count_extensions (files s);
             total_size = sum_list (map fi_file_size_mb (files s));
             by_extension = take 10 (py_sorted_reverse snd extensions);
             top = sorted_files (files s)
         in (Inr (),
             s\<lparr>trace := trace s @
                [Print Rule, Print SummaryHeading, Print Rule,
                 Print (TotalFiles (length (files s))),
                 Print (TotalSize (py_round2 total_size)),
                 Print ByExtensionHeading] @
                map (\<lambda>(ext, n). Print (ExtensionCount (if ext = [] then latin1 ''no extension'' else ext) n))
                  by_extension @
                [Print TopLargestHeading] @
                map (\<lambda>(i, f). Print (TopLargestEntry i (fi_filename f) (fi_file_size_mb f)))
                  (zip [1..<Suc (length top)] top) @
                [Print Rule]\<rparr>)))"

text \<open>\<open>TelegramFileScraper.close\<close>: disconnect, then the farewell line.\<close>

definition close :: "client \<Rightarrow> state \<Rightarrow> (exn + unit) \<times> state" where
  "close c s =
     (let s1 = emit ClientDisconnect s
      in case disconnect_result c of
           Some e \<Rightarrow> (Inl e, s1)
         | None \<Rightarrow> (Inr (), emit (Print Disconnected) s1))"

section \<open>The command-line driver\<close>

text \<open>The parsed command line: \<open>--group\<close>, \<open>--limit\<close>, \<open>--output\<close>, \<open>--types\<close>, \<open>--json\<close>.\<close>

record args =
  arg_group :: string
  arg_limit :: int
  arg_output :: string
  arg_types :: "pystr list option"
  arg_json :: bool

text \<open>Sequencing: the next statement runs only when the one before returned.\<close>

definition and_then ::
  "(exn + unit) \<times> state \<Rightarrow> (state \<Rightarrow> (exn + unit) \<times> state) \<Rightarrow> (exn + unit) \<times> state" where
  "and_then r f = (case r of (Inl e, s) \<Rightarrow> (Inl e, s) | (Inr u, s) \<Rightarrow> f s)"

text \<open>The path handed to \<open>export_json\<close>: \<open>args.output.replace('.csv', '.json')\<close>.\<close>

definition json_path :: "string \<Rightarrow> string" where
  "json_path output_path = replace output_path ''.csv'' ''.json''"

text \<open>
  The statements of the \<open>try\<close> block of \<open>main\<close> that follow the construction of the
  scraper.
\<close>

definition try_body ::
  "config \<Rightarrow> client \<Rightarrow> filesystem \<Rightarrow> args \<Rightarrow> state \<Rightarrow> (exn + unit) \<times> state" where
  "try_body cfg c fs a s =
     and_then (connect cfg c s) (\<lambda>s1.
     and_then (scrape_group c (IdStr (arg_group a)) (arg_limit a) (arg_types a) s1) (\<lambda>s2.
     and_then (export_csv fs (arg_output a) s2) (\<lambda>s3.
     and_then (if arg_json a then export_json fs (json_path (arg_output a)) s3 else (Inr (), s3))
       print_summary)))"

text \<open>The \<open>except Exception\<close> clause of \<open>main\<close>: the error line and the traceback.\<close>

definition report :: "exn \<Rightarrow> state \<Rightarrow> state" where
  "report e s = emit (PrintTraceback e) (emit (Print (ErrorLine e)) s)"

text \<open>
  \<open>main\<close>, after the command line is parsed: the exception that leaves it, if any, and
  the effects of the run. When the constructor raises, the local \<open>scraper\<close> is never
  bound: the handler reports the error, and the \<open>finally\<close> clause, which reads
  \<open>scraper\<close>, raises \<open>UnboundLocalError\<close>.
\<close>

definition main ::
  "config \<Rightarrow> client \<Rightarrow> filesystem \<Rightarrow> args \<Rightarrow> exn option \<times> effect list" where
  "main cfg c fs a =
     (let t0 = [Print Rule, Print Banner, Print Rule]
      in case init cfg t0 of
           Inl e \<Rightarrow>
             (Some (UnboundLocalError ''scraper''),
              trace (report e \<lparr>files = [], trace = t0\<rparr>))
         | Inr s0 \<Rightarrow>
             (let tried = try_body cfg c fs a s0;
                  s1 = (case fst tried of Inl e \<Rightarrow> report e (snd tried) | Inr u \<Rightarrow> snd tried);
                  closed = close c s1
              in (case fst closed of Inl e \<Rightarrow> Some e | Inr u \<Rightarrow> None, trace (snd closed))))"

section \<open>Properties of the classifier\<close>

lemma endswith_suffix: "endswith s ext = suffix ext s"
proof
  assume "endswith s ext"
  then have "s = take (length s - length ext) s @ ext"
    by (metis append_take_drop_id endswith_def)
  then show "suffix ext s"
    by (rule suffixI)
next
  assume "suffix ext s"
  then obtain pre where "s = pre @ ext"
    by (auto simp: suffix_def)
  then show "endswith s ext"
    by (simp add: endswith_def)
qed




text \<open>Lower-casing a character twice is lower-casing it once.\<close>

lemma lower_char_idem: "lower_char (lower_char c) = lower_char c"
  by (cases c) (auto simp: is_upper_latin1_def)


lemma lower_idem: "lower (lower s) = lower s"
  by (simp add: lower_def lower_char_idem)

lemma lower_Nil: "(lower s = []) = (s = [])"
  by (simp add: lower_def)

text \<open>
  C4. For every filename and every extension list the classifier returns false when
  the filename is absent or empty, and otherwise returns true exactly when the
  lower-cased filename ends with at least one extension of the list in force (the
  supplied one, else the built-in default list). The answer does not depend on the
  case of the filename: a filename and its lower-cased form are classified alike.
  The function is a total HOL function with a boolean result: it has no error value.
\<close>

theorem is_target_file_spec:
  "is_target_file filename file_types =
     (case filename of
        None \<Rightarrow> False
      | Some fn \<Rightarrow>
          fn \<noteq> [] \<and>
          (\<exists>ext \<in> set (case file_types of None \<Rightarrow> default_file_types | Some l \<Rightarrow> l).
             suffix ext (lower fn))) \<and>
   is_target_file (Some (lower fname)) file_types = is_target_file (Some fname) file_types"
proof
  show "is_target_file filename file_types =
     (case filename of
        None \<Rightarrow> False
      | Some fn \<Rightarrow>
          fn \<noteq> [] \<and>
          (\<exists>ext \<in> set (case file_types of None \<Rightarrow> default_file_types | Some l \<Rightarrow> l).
             suffix ext (lower fn)))"
    by (cases filename)
       (simp_all add: is_target_file_def list_ex_iff endswith_suffix)
next
  show "is_target_file (Some (lower fname)) file_types = is_target_file (Some fname) file_types"
    by (simp add: is_target_file_def lower_idem lower_Nil)
qed

theorem is_target_file_spec_witness:
  "is_target_file (Some (latin1 ''A.ZIP'')) (Some [latin1 ''.zip'']) \<and>
   is_target_file (Some (latin1 ''FILE.'' @ [Latin1 (CHR 0xC9)]))
     (Some [[Latin1 (CHR ''.''), Latin1 (CHR 0xE9)]]) \<and>
   is_target_file (Some (latin1 ''Robot.Ex4'')) None \<and>
   \<not> is_target_file (Some (latin1 ''notes.exe'')) (Some [latin1 ''.zip'', latin1 ''.ex4'']) \<and>
   \<not> is_target_file (Some (latin1 ''a.zip'')) (Some []) \<and>
   \<not> is_target_file (Some []) None \<and>
   \<not> is_target_file None None"
proof -
  have l1: "lower (latin1 ''A.ZIP'') = latin1 ''a.zip''"
    by code_simp
  have l2: "lower (latin1 ''FILE.'' @ [Latin1 (CHR 0xC9)]) =
      latin1 ''file'' @ [Latin1 (CHR ''.''), Latin1 (CHR 0xE9)]"
    by code_simp
  have l3: "lower (latin1 ''Robot.Ex4'') = latin1 ''robot.ex4''"
    by code_simp
  have l4: "lower (latin1 ''notes.exe'') = latin1 ''notes.exe''"
    by code_simp
  have s1: "suffix (latin1 ''.zip'') (latin1 ''a.zip'')"
    by (simp add: latin1_def suffix_def)
  have s2: "suffix [Latin1 (CHR ''.''), Latin1 (CHR 0xE9)]
      (latin1 ''file'' @ [Latin1 (CHR ''.''), Latin1 (CHR 0xE9)])"
    by (rule suffixI) (rule refl)
  have s3: "latin1 ''.ex4'' \<in> set default_file_types \<and>
      suffix (latin1 ''.ex4'') (latin1 ''robot.ex4'')"
    by (simp add: default_file_types_def latin1_def suffix_def)
  have s4: "\<not> suffix (latin1 ''.zip'') (latin1 ''notes.exe'') \<and>
      \<not> suffix (latin1 ''.ex4'') (latin1 ''notes.exe'')"
    by (simp add: latin1_def suffix_Cons)
  have n1: "latin1 ''A.ZIP'' \<noteq> []" "latin1 ''FILE.'' @ [Latin1 (CHR 0xC9)] \<noteq> []"
    "latin1 ''Robot.Ex4'' \<noteq> []" "latin1 ''notes.exe'' \<noteq> []"
    by (simp_all add: latin1_def)
  have a: "is_target_file (Some (latin1 ''A.ZIP'')) (Some [latin1 ''.zip''])"
    using is_target_file_spec [of "Some (latin1 ''A.ZIP'')" "Some [latin1 ''.zip'']"] l1 s1 n1
    by simp
  have b: "is_target_file (Some (latin1 ''FILE.'' @ [Latin1 (CHR 0xC9)]))
     (Some [[Latin1 (CHR ''.''), Latin1 (CHR 0xE9)]])"
    using is_target_file_spec [of "Some (latin1 ''FILE.'' @ [Latin1 (CHR 0xC9)])"
        "Some [[Latin1 (CHR ''.''), Latin1 (CHR 0xE9)]]"] l2 s2 n1
    by simp
  have c: "is_target_file (Some (latin1 ''Robot.Ex4'')) None"
    using is_target_file_spec [of "Some (latin1 ''Robot.Ex4'')" None] l3 s3 n1
    by auto
  have d: "\<not> is_target_file (Some (latin1 ''notes.exe''))
      (Some [latin1 ''.zip'', latin1 ''.ex4''])"
    using is_target_file_spec [of "Some (latin1 ''notes.exe'')"
        "Some [latin1 ''.zip'', latin1 ''.ex4'']"] l4 s4
    by simp
  have e: "\<not> is_target_file (Some (latin1 ''a.zip'')) (Some [])"
    using is_target_file_spec [of "Some (latin1 ''a.zip'')" "Some []"] by simp
  have f: "\<not> is_target_file (Some []) None"
    using is_target_file_spec [of "Some []" None] by simp
  have g: "\<not> is_target_file None None"
    using is_target_file_spec [of None None] by simp
  from a b c d e f g show ?thesis
    by blast
qed

lemma suffix_last: "suffix ext s \<Longrightarrow> ext \<noteq> [] \<Longrightarrow> last s = last ext"
  by (auto simp: suffix_def)

lemma default_file_types_last:
  "ext \<in> set default_file_types \<Longrightarrow> ext \<noteq> [] \<and> last ext \<noteq> Latin1 (CHR ''e'')"
  by (auto simp: default_file_types_def latin1_def)

text \<open>
  C9. Called without an extension list, the classifier accepts every filename whose
  lower-cased form ends with a member of the documented default list, and rejects
  every filename whose lower-cased form ends with the unlisted \<open>.exe\<close>. The list
  written in the claim is the list of the code.
\<close>

theorem default_set_completeness:
  "default_file_types =
     map latin1
       [''.ex4'', ''.ex5'', ''.mq4'', ''.mq5'', ''.zip'', ''.rar'', ''.7z'', ''.pdf'',
        ''.doc'', ''.docx'', ''.txt'', ''.jpg'', ''.jpeg'', ''.png'', ''.gif'', ''.mp4'',
        ''.avi'', ''.mkv'', ''.py'', ''.js'', ''.html''] \<and>
   (\<forall>fn ext. ext \<in> set default_file_types \<and> suffix ext (lower fn)
       \<longrightarrow> is_target_file (Some fn) None) \<and>
   (\<forall>fn. suffix (latin1 ''.exe'') (lower fn) \<longrightarrow> \<not> is_target_file (Some fn) None)"
proof (intro conjI allI impI)
  show "default_file_types =
     map latin1
       [''.ex4'', ''.ex5'', ''.mq4'', ''.mq5'', ''.zip'', ''.rar'', ''.7z'', ''.pdf'',
        ''.doc'', ''.docx'', ''.txt'', ''.jpg'', ''.jpeg'', ''.png'', ''.gif'', ''.mp4'',
        ''.avi'', ''.mkv'', ''.py'', ''.js'', ''.html'']"
    by (simp add: default_file_types_def)
next
  fix fn ext
  assume a: "ext \<in> set default_file_types \<and> suffix ext (lower fn)"
  then have "ext \<noteq> []"
    using default_file_types_last by blast
  with a have "fn \<noteq> []"
    by (auto simp: lower_def)
  with a show "is_target_file (Some fn) None"
    by (auto simp: is_target_file_def list_ex_iff endswith_suffix)
next
  fix fn
  assume exe: "suffix (latin1 ''.exe'') (lower fn)"
  show "\<not> is_target_file (Some fn) None"
  proof
    assume "is_target_file (Some fn) None"
    then obtain ext where ext: "ext \<in> set default_file_types" "suffix ext (lower fn)"
      by (auto simp: is_target_file_def list_ex_iff endswith_suffix split: if_splits)
    from ext have "last (lower fn) = last ext"
      using default_file_types_last suffix_last by blast
    moreover from exe have "last (lower fn) = Latin1 (CHR ''e'')"
      using suffix_last [of "latin1 ''.exe''" "lower fn"] by (simp add: latin1_def)
    ultimately show False
      using ext(1) default_file_types_last by metis
  qed
qed

theorem default_set_completeness_witness:
  "is_target_file (Some (latin1 ''Robot.EX4'')) None \<and>
   \<not> is_target_file (Some (latin1 ''setup.exe'')) None"
proof -
  have l1: "lower (latin1 ''Robot.EX4'') = latin1 ''robot.ex4''"
    by code_simp
  have l2: "lower (latin1 ''setup.exe'') = latin1 ''setup.exe''"
    by code_simp
  have a: "latin1 ''.ex4'' \<in> set default_file_types \<and>
      suffix (latin1 ''.ex4'') (lower (latin1 ''Robot.EX4''))"
    unfolding l1 by (simp add: default_file_types_def latin1_def suffix_def)
  have b: "suffix (latin1 ''.exe'') (lower (latin1 ''setup.exe''))"
    unfolding l2 by (simp add: latin1_def suffix_def)
  from default_set_completeness a b show ?thesis
    by blast
qed




section \<open>Properties of sender resolution\<close>

text \<open>
  Where the priority order holds: no sender gives \<open>Unknown\<close>; a non-empty first name
  gives the first name, followed by a space and the last name when that is non-empty;
  a sender without the attribute \<open>first_name\<close> gives \<open>@\<close> and the username when
  that is non-empty, else \<open>Unknown\<close>.
\<close>

lemma get_sender_name_priority:
  "get_sender_name (m\<lparr>msg_sender := None\<rparr>) = Some ''Unknown'' \<and>
   (fname \<noteq> [] \<longrightarrow>
      get_sender_name
        (m\<lparr>msg_sender := Some \<lparr>first_name = Has (Some fname), last_name = lname,
                                username = uname\<rparr>\<rparr>) =
        (case lname of
           Has (Some l) \<Rightarrow> if l \<noteq> [] then Some (fname @ '' '' @ l) else Some fname
         | _ \<Rightarrow> Some fname)) \<and>
   get_sender_name
     (m\<lparr>msg_sender := Some \<lparr>first_name = Missing, last_name = lname, username = uname\<rparr>\<rparr>) =
     (case uname of
        Has (Some u) \<Rightarrow> if u \<noteq> [] then Some (''@'' @ u) else Some ''Unknown''
      | _ \<Rightarrow> Some ''Unknown'')"
  by (auto simp: get_sender_name_def truthy_def fmt_def split: attr.splits option.splits)

text \<open>
  C1. The claim says that the result is never empty or null, and that a sender
  without a first name falls back to \<open>@\<close> and the username. The code tests only
  whether the sender has the attribute \<open>first_name\<close>, not whether it holds a name: for
  a user whose first name is \<open>None\<close> and whose username is \<open>bob\<close> the result is
  \<open>None\<close>; with an empty first name it is the empty string; and with first name
  \<open>None\<close> and last name \<open>Smith\<close> it is the text \<open>None Smith\<close>.
\<close>

theorem get_sender_name_first_name_none:
  "get_sender_name
     (m\<lparr>msg_sender := Some \<lparr>first_name = Has None, last_name = Has None,
                             username = Has (Some ''bob'')\<rparr>\<rparr>) = None \<and>
   get_sender_name
     (m\<lparr>msg_sender := Some \<lparr>first_name = Has (Some []), last_name = Has None,
                             username = Has (Some ''bob'')\<rparr>\<rparr>) = Some [] \<and>
   get_sender_name
     (m\<lparr>msg_sender := Some \<lparr>first_name = Has None, last_name = Has (Some ''Smith''),
                             username = Has (Some ''bob'')\<rparr>\<rparr>) = Some ''None Smith''"
  by (simp add: get_sender_name_def truthy_def fmt_def)

section \<open>Properties of the driver and of the scrape\<close>

text \<open>
  Once the scraper is constructed, every path through \<open>main\<close> ends with the call of
  \<open>disconnect\<close>, followed by the farewell line when the call returns.
\<close>

lemma main_disconnects_when_constructed:
  "credentials_configured cfg \<Longrightarrow>
   \<exists>t. snd (main cfg c fs a) = t @ [ClientDisconnect] \<or>
       snd (main cfg c fs a) = t @ [ClientDisconnect, Print Disconnected]"
  by (auto simp: main_def init_def close_def emit_def Let_def split: option.splits)

text \<open>
  C2. The claim says that the driver disconnects on every exit path, the
  configuration error at construction included. With the credentials absent (the
  state after \<open>config.py\<close> could not be imported) the constructor raises before
  \<open>scraper\<close> is bound: the handler reports the error, the \<open>finally\<close> clause raises
  \<open>UnboundLocalError\<close>, which leaves \<open>main\<close>, and \<open>disconnect\<close> is never called,
  whatever the client, the file system and the command line.
\<close>

theorem main_config_error_skips_disconnect:
  "fst (main \<lparr>API_ID = None, API_HASH = None, PHONE_NUMBER = None\<rparr> c fs a) =
     Some (UnboundLocalError ''scraper'') \<and>
   ClientDisconnect \<notin>
     set (snd (main \<lparr>API_ID = None, API_HASH = None, PHONE_NUMBER = None\<rparr> c fs a))"
  by (simp add: main_def init_def credentials_configured_def report_def emit_def)

text \<open>
  C3. If \<open>get_entity\<close> raises, \<open>scrape_group\<close> returns normally, the Collector is what
  it was before the call, and the output of the call is its two opening lines and
  the error line.
\<close>

theorem scrape_group_resolution_failure:
  "get_entity c gid = Inl e \<Longrightarrow>
   fst (scrape_group c gid limit ft s) = Inr () \<and>
   files (snd (scrape_group c gid limit ft s)) = files s \<and>
   trace (snd (scrape_group c gid limit ft s)) =
     trace s @
     [Print (ScrapingGroup gid), Print (ScanningLast limit), Print (ErrorGettingGroup e)]"
  by (simp add: scrape_group_def resolve_entity_def emit_def)

theorem scrape_group_resolution_failure_witness:
  "\<forall>r. (let c = \<lparr>connect_result = None, is_user_authorized = Inr True, start_result = None,
                   get_entity = (\<lambda>g. Inl (ClientError ''no such channel'')),
                   iter_messages = (\<lambda>ent n. ([], None)), disconnect_result = None\<rparr>;
              s = \<lparr>files = [r], trace = []\<rparr>;
              res = scrape_group c (IdStr ''nochannel'') 100 None s
          in fst res = Inr () \<and> files (snd res) = [r] \<and>
             trace (snd res) =
               [Print (ScrapingGroup (IdStr ''nochannel'')), Print (ScanningLast 100),
                Print (ErrorGettingGroup (ClientError ''no such channel''))])"
proof -
  have h: "get_entity \<lparr>connect_result = None, is_user_authorized = Inr True,
              start_result = None,
              get_entity = (\<lambda>g. Inl (ClientError ''no such channel'')),
              iter_messages = (\<lambda>ent n. ([], None)), disconnect_result = None\<rparr>
            (IdStr ''nochannel'') = Inl (ClientError ''no such channel'')"
    by simp
  show ?thesis
    using scrape_group_resolution_failure [OF h] by (simp add: Let_def)
qed

section \<open>Properties of the record builder\<close>










section \<open>Properties of the exporters\<close>

text \<open>
  The statement of C6 as it is written fails in its last part: with a non-empty
  Collector and an output path in a directory that does not exist, \<open>open\<close> raises,
  the exception leaves the exporter, and nothing is written or printed.
\<close>

theorem export_unopenable_path_writes_nothing:
  "files \<lparr>files = [\<lparr>fi_filename = latin1 ''ea.zip'', fi_message_id = 42, fi_date = [],
                       fi_sender = Some ''Unknown'', fi_caption = [], fi_file_size_mb = 0,
                       fi_message_url = ''42''\<rparr>],
          trace = []\<rparr> \<noteq> [] \<and>
   export_csv (\<lambda>p. OpenRaises (OSError ''No such file or directory'')) ''nodir/out.csv''
     \<lparr>files = [\<lparr>fi_filename = latin1 ''ea.zip'', fi_message_id = 42, fi_date = [],
                 fi_sender = Some ''Unknown'', fi_caption = [], fi_file_size_mb = 0,
                 fi_message_url = ''42''\<rparr>],
      trace = []\<rparr> =
     (Inl (OSError ''No such file or directory''),
      \<lparr>files = [\<lparr>fi_filename = latin1 ''ea.zip'', fi_message_id = 42, fi_date = [],
                  fi_sender = Some ''Unknown'', fi_caption = [], fi_file_size_mb = 0,
                  fi_message_url = ''42''\<rparr>],
       trace = []\<rparr>) \<and>
   export_json (\<lambda>p. OpenRaises (OSError ''No such file or directory'')) ''nodir/out.json''
     \<lparr>files = [\<lparr>fi_filename = latin1 ''ea.zip'', fi_message_id = 42, fi_date = [],
                 fi_sender = Some ''Unknown'', fi_caption = [], fi_file_size_mb = 0,
                 fi_message_url = ''42''\<rparr>],
      trace = []\<rparr> =
     (Inl (OSError ''No such file or directory''),
      \<lparr>files = [\<lparr>fi_filename = latin1 ''ea.zip'', fi_message_id = 42, fi_date = [],
                  fi_sender = Some ''Unknown'', fi_caption = [], fi_file_size_mb = 0,
                  fi_message_url = ''42''\<rparr>],
       trace = []\<rparr>)"
  by (simp add: export_csv_def export_json_def)

text \<open>
  C6, amended. With an empty Collector each exporter returns normally, prints the
  warning and writes no file, whatever the file system would answer. With a
  non-empty Collector each exporter opens the path: when the file can be opened and
  written, it holds the export (the column names and the rows for CSV, the list for
  JSON) and the path is printed; when \<open>open\<close> raises, the exception leaves the
  exporter and nothing is written or printed; when writing raises, the exception
  leaves the exporter and the file is left opened for writing, without the export.
  In the driver, when the connection and the scrape have returned and the Collector
  is empty, the \<open>try\<close> block completes normally with the warnings as its only further
  output, so the handler for failures is not entered.
\<close>

theorem export_empty_collector:
  "(files s = [] \<longrightarrow>
      export_csv fs p s = (Inr (), s\<lparr>trace := trace s @ [Print NoFilesToExport]\<rparr>) \<and>
      export_json fs p s = (Inr (), s\<lparr>trace := trace s @ [Print NoFilesToExport]\<rparr>)) \<and>
   (files s \<noteq> [] \<and> fs p = IoOk \<longrightarrow>
      export_csv fs p s =
        (Inr (), s\<lparr>trace := trace s @
           [FileWrite p (CsvFile fieldnames (files s)), Print (ExportedTo p)]\<rparr>) \<and>
      export_json fs p s =
        (Inr (), s\<lparr>trace := trace s @
           [FileWrite p (JsonFile (files s)), Print (ExportedTo p)]\<rparr>)) \<and>
   (files s \<noteq> [] \<and> fs p = OpenRaises e \<longrightarrow>
      export_csv fs p s = (Inl e, s) \<and> export_json fs p s = (Inl e, s)) \<and>
   (files s \<noteq> [] \<and> fs p = WriteRaises e \<longrightarrow>
      export_csv fs p s = (Inl e, s\<lparr>trace := trace s @ [FileTruncated p]\<rparr>) \<and>
      export_json fs p s = (Inl e, s\<lparr>trace := trace s @ [FileTruncated p]\<rparr>)) \<and>
   (connect cfg c s0 = (Inr (), s1) \<and>
    scrape_group c (IdStr (arg_group a)) (arg_limit a) (arg_types a) s1 = (Inr (), s2) \<and>
    files s2 = [] \<longrightarrow>
      try_body cfg c fs a s0 =
        (Inr (), s2\<lparr>trace := trace s2 @
           (if arg_json a then [Print NoFilesToExport, Print NoFilesToExport]
            else [Print NoFilesToExport])\<rparr>))"
  by (simp add: export_csv_def export_json_def emit_def try_body_def and_then_def
      print_summary_def)

theorem export_empty_collector_witness:
  "export_csv (\<lambda>p. OpenRaises (OSError ''No such file or directory'')) ''nodir/out.csv''
     \<lparr>files = [], trace = []\<rparr> =
     (Inr (), \<lparr>files = [], trace = [Print NoFilesToExport]\<rparr>) \<and>
   export_json (\<lambda>p. IoOk) ''out.json'' \<lparr>files = [], trace = []\<rparr> =
     (Inr (), \<lparr>files = [], trace = [Print NoFilesToExport]\<rparr>) \<and>
   (\<forall>r. export_csv (\<lambda>p. IoOk) ''out.csv'' \<lparr>files = [r], trace = []\<rparr> =
     (Inr (), \<lparr>files = [r],
        trace = [FileWrite ''out.csv'' (CsvFile fieldnames [r]), Print (ExportedTo ''out.csv'')]\<rparr>)) \<and>
   (\<forall>r. export_json (\<lambda>p. IoOk) ''out.json'' \<lparr>files = [r], trace = []\<rparr> =
     (Inr (), \<lparr>files = [r],
        trace = [FileWrite ''out.json'' (JsonFile [r]), Print (ExportedTo ''out.json'')]\<rparr>)) \<and>
   (\<forall>r. export_csv (\<lambda>p. OpenRaises (OSError ''No such file or directory''))
          ''nodir/out.csv'' \<lparr>files = [r], trace = []\<rparr> =
     (Inl (OSError ''No such file or directory''), \<lparr>files = [r], trace = []\<rparr>)) \<and>
   (\<forall>r. export_json (\<lambda>p. WriteRaises (OSError ''No space left on device''))
          ''out.json'' \<lparr>files = [r], trace = []\<rparr> =
     (Inl (OSError ''No space left on device''),
      \<lparr>files = [r], trace = [FileTruncated ''out.json'']\<rparr>)) \<and>
   try_body \<lparr>API_ID = Some 12345678, API_HASH = Some ''hash'', PHONE_NUMBER = None\<rparr>
     \<lparr>connect_result = None, is_user_authorized = Inr True, start_result = None,
      get_entity = (\<lambda>g. Inl (ClientError ''no such channel'')),
      iter_messages = (\<lambda>ent n. ([], None)), disconnect_result = None\<rparr>
     (\<lambda>p. IoOk)
     \<lparr>arg_group = ''nochannel'', arg_limit = 10000, arg_output = ''scraped_files.csv'',
      arg_types = None, arg_json = True\<rparr>
     \<lparr>files = [], trace = []\<rparr> =
     (Inr (), \<lparr>files = [],
        trace = [Print Connecting, ClientConnect, Print Connected,
                 Print (ScrapingGroup (IdStr ''nochannel'')), Print (ScanningLast 10000),
                 Print (ErrorGettingGroup (ClientError ''no such channel'')),
                 Print NoFilesToExport, Print NoFilesToExport]\<rparr>)"
proof -
  define cfg where "cfg = \<lparr>API_ID = Some 12345678, API_HASH = Some ''hash'', PHONE_NUMBER = None\<rparr>"
  define c where "c = \<lparr>connect_result = None, is_user_authorized = Inr True, start_result = None,
      get_entity = (\<lambda>g. Inl (ClientError ''no such channel'')),
      iter_messages = (\<lambda>ent n. ([], None)), disconnect_result = None\<rparr>"
  define a where "a = \<lparr>arg_group = ''nochannel'', arg_limit = 10000,
      arg_output = ''scraped_files.csv'', arg_types = None, arg_json = True\<rparr>"
  define ok :: filesystem where "ok = (\<lambda>p. IoOk)"
  define noent :: filesystem where
    "noent = (\<lambda>p. OpenRaises (OSError ''No such file or directory''))"
  define full :: filesystem where
    "full = (\<lambda>p. WriteRaises (OSError ''No space left on device''))"
  define s0 where "s0 = \<lparr>files = [], trace = []\<rparr>"
  define s1 where "s1 = \<lparr>files = [], trace = [Print Connecting, ClientConnect, Print Connected]\<rparr>"
  define s2 where "s2 = \<lparr>files = [],
      trace = [Print Connecting, ClientConnect, Print Connected,
               Print (ScrapingGroup (IdStr ''nochannel'')), Print (ScanningLast 10000),
               Print (ErrorGettingGroup (ClientError ''no such channel''))]\<rparr>"
  have h1: "connect cfg c s0 = (Inr (), s1)"
    by (simp add: connect_def c_def s0_def s1_def emit_def)
  have h2: "scrape_group c (IdStr (arg_group a)) (arg_limit a) (arg_types a) s1 = (Inr (), s2)"
    by (simp add: scrape_group_def resolve_entity_def c_def a_def s1_def s2_def emit_def)
  have h3: "files s2 = []"
    by (simp add: s2_def)
  have e: "files \<lparr>files = [], trace = []\<rparr> = []"
    by simp
  have n: "files \<lparr>files = [r], trace = []\<rparr> \<noteq> []" for r :: file_info
    by simp
  have o1: "ok p = IoOk" for p
    by (simp add: ok_def)
  have o2: "noent p = OpenRaises (OSError ''No such file or directory'')" for p
    by (simp add: noent_def)
  have o3: "full p = WriteRaises (OSError ''No space left on device'')" for p
    by (simp add: full_def)
  have t: "try_body cfg c ok a s0 =
        (Inr (), s2\<lparr>trace := trace s2 @ [Print NoFilesToExport, Print NoFilesToExport]\<rparr>)"
    using export_empty_collector [of s2 ok "''x''" undefined cfg c s0 s1 a s2] h1 h2 h3
    by (simp add: a_def)
  have x1: "export_csv noent ''nodir/out.csv'' \<lparr>files = [], trace = []\<rparr> =
     (Inr (), \<lparr>files = [], trace = [Print NoFilesToExport]\<rparr>)"
    using export_empty_collector
      [of "\<lparr>files = [], trace = []\<rparr>" noent "''nodir/out.csv''" undefined cfg c s0 s1 a s2] e
    by simp
  have x2: "export_json ok ''out.json'' \<lparr>files = [], trace = []\<rparr> =
     (Inr (), \<lparr>files = [], trace = [Print NoFilesToExport]\<rparr>)"
    using export_empty_collector
      [of "\<lparr>files = [], trace = []\<rparr>" ok "''out.json''" undefined cfg c s0 s1 a s2] e
    by simp
  have x3: "export_csv ok ''out.csv'' \<lparr>files = [r], trace = []\<rparr> =
     (Inr (), \<lparr>files = [r],
        trace = [FileWrite ''out.csv'' (CsvFile fieldnames [r]), Print (ExportedTo ''out.csv'')]\<rparr>)" for r
    using export_empty_collector
      [of "\<lparr>files = [r], trace = []\<rparr>" ok "''out.csv''" undefined cfg c s0 s1 a s2] n o1
    by simp
  have x4: "export_json ok ''out.json'' \<lparr>files = [r], trace = []\<rparr> =
     (Inr (), \<lparr>files = [r],
        trace = [FileWrite ''out.json'' (JsonFile [r]), Print (ExportedTo ''out.json'')]\<rparr>)" for r
    using export_empty_collector
      [of "\<lparr>files = [r], trace = []\<rparr>" ok "''out.json''" undefined cfg c s0 s1 a s2] n o1
    by simp
  have x5: "export_csv noent ''nodir/out.csv'' \<lparr>files = [r], trace = []\<rparr> =
     (Inl (OSError ''No such file or directory''), \<lparr>files = [r], trace = []\<rparr>)" for r
    using export_empty_collector
      [of "\<lparr>files = [r], trace = []\<rparr>" noent "''nodir/out.csv''"
          "OSError ''No such file or directory''" cfg c s0 s1 a s2] n o2
    by simp
  have x6: "export_json full ''out.json'' \<lparr>files = [r], trace = []\<rparr> =
     (Inl (OSError ''No space left on device''),
      \<lparr>files = [r], trace = [FileTruncated ''out.json'']\<rparr>)" for r
    using export_empty_collector
      [of "\<lparr>files = [r], trace = []\<rparr>" full "''out.json''"
          "OSError ''No space left on device''" cfg c s0 s1 a s2] n o3
    by simp
  from t have t': "try_body cfg c ok a s0 = (Inr (), \<lparr>files = [],
        trace = [Print Connecting, ClientConnect, Print Connected,
                 Print (ScrapingGroup (IdStr ''nochannel'')), Print (ScanningLast 10000),
                 Print (ErrorGettingGroup (ClientError ''no such channel'')),
                 Print NoFilesToExport, Print NoFilesToExport]\<rparr>)"
    by (simp add: s2_def)
  from x1 x2 x3 x4 x5 x6 t' show ?thesis
    unfolding cfg_def c_def a_def s0_def ok_def noent_def full_def by blast
qed

text \<open>
  C8. The claim says that the JSON path is the CSV path with the extension \<open>.json\<close>,
  for every output path. The code replaces every occurrence of the text \<open>.csv\<close>
  wherever it stands: the default \<open>scraped_files.csv\<close> becomes \<open>scraped_files.json\<close>,
  but \<open>results.txt\<close> and \<open>FILES.CSV\<close> are left as they are, and \<open>my.csv.d/x.csv\<close>
  becomes \<open>my.json.d/x.json\<close>, in another directory. With \<open>--output results.txt\<close>,
  a non-empty Collector and a file system on which every path can be written, both
  exports write the same path, the JSON over the CSV.
\<close>

theorem json_path_replaces_every_csv:
  "json_path ''scraped_files.csv'' = ''scraped_files.json'' \<and>
   json_path ''results.txt'' = ''results.txt'' \<and>
   json_path ''my.csv.d/x.csv'' = ''my.json.d/x.json'' \<and>
   json_path ''FILES.CSV'' = ''FILES.CSV'' \<and>
   trace (snd (and_then (export_csv (\<lambda>p. IoOk) ''results.txt'' \<lparr>files = [r], trace = []\<rparr>)
                 (export_json (\<lambda>p. IoOk) (json_path ''results.txt'')))) =
     [FileWrite ''results.txt'' (CsvFile fieldnames [r]), Print (ExportedTo ''results.txt''),
      FileWrite ''results.txt'' (JsonFile [r]), Print (ExportedTo ''results.txt'')]"
proof -
  have j1: "json_path ''scraped_files.csv'' = ''scraped_files.json''" by code_simp
  have j2: "json_path ''results.txt'' = ''results.txt''" by code_simp
  have j3: "json_path ''my.csv.d/x.csv'' = ''my.json.d/x.json''" by code_simp
  have j4: "json_path ''FILES.CSV'' = ''FILES.CSV''" by code_simp
  show ?thesis
    unfolding j1 j2 j3 j4
    by (simp add: and_then_def export_csv_def export_json_def emit_def)
qed

section \<open>Properties of the summary\<close>

text \<open>Python's reverse sort: descending by key, stable, a permutation of its input.\<close>

lemma py_sorted_reverse_sorted:
  "sorted_wrt (\<lambda>a b. key b \<le> key a) (py_sorted_reverse key xs)"
proof -
  have "sorted (map key (sort_key key (rev xs)))"
    by (rule sorted_sort_key)
  then have "sorted_wrt (\<lambda>a b. key a \<le> key b) (sort_key key (rev xs))"
    by (simp add: sorted_map)
  then show ?thesis
    by (simp add: py_sorted_reverse_def sorted_wrt_rev)
qed

lemma py_sorted_reverse_stable:
  "filter (\<lambda>y. key y = k) (py_sorted_reverse key xs) = filter (\<lambda>y. key y = k) xs"
proof -
  have "filter (\<lambda>y. key y = k) (py_sorted_reverse key xs) =
      rev (filter (\<lambda>y. key y = k) (sort_key key (rev xs)))"
    by (simp add: py_sorted_reverse_def rev_filter)
  also have "\<dots> = rev (filter (\<lambda>y. key y = k) (rev xs))"
    by (simp only: sort_key_stable)
  also have "\<dots> = filter (\<lambda>y. key y = k) xs"
    by (simp add: rev_filter)
  finally show ?thesis .
qed

lemma mset_py_sorted_reverse: "mset (py_sorted_reverse key xs) = mset xs"
  by (simp add: py_sorted_reverse_def)

lemma length_py_sorted_reverse: "length (py_sorted_reverse key xs) = length xs"
  by (simp add: py_sorted_reverse_def)

lemma print_summary_files: "files (snd (print_summary s)) = files s"
  by (simp add: print_summary_def Let_def)

text \<open>
  C7. For every Collector, the list printed under \<open>Top 10 Largest Files\<close> has ten
  records, or all of them when there are fewer; it is in descending order of
  \<open>file_size_mb\<close>; every record left out is no larger than any record in the list;
  the records of any one size appear in the order they have in the Collector (the
  list holds the first of them); and \<open>print_summary\<close> returns normally and leaves the
  Collector as it was. The entries printed after the heading are the records of that
  list, numbered from 1.
\<close>

theorem top10_largest:
  "length (sorted_files fs) = min 10 (length fs) \<and>
   sorted_wrt (\<lambda>a b. fi_file_size_mb b \<le> fi_file_size_mb a) (sorted_files fs) \<and>
   (\<exists>others. mset (sorted_files fs @ others) = mset fs \<and>
      (\<forall>a \<in> set (sorted_files fs). \<forall>b \<in> set others.
         fi_file_size_mb b \<le> fi_file_size_mb a)) \<and>
   (\<forall>k. prefix (filter (\<lambda>f. fi_file_size_mb f = k) (sorted_files fs))
               (filter (\<lambda>f. fi_file_size_mb f = k) fs)) \<and>
   files (snd (print_summary s)) = files s \<and>
   fst (print_summary s) = Inr () \<and>
   (files s \<noteq> [] \<longrightarrow>
      (\<exists>before. trace (snd (print_summary s)) =
         trace s @ before @ [Print TopLargestHeading] @
         map (\<lambda>(i, f). Print (TopLargestEntry i (fi_filename f) (fi_file_size_mb f)))
           (zip [1..<Suc (length (sorted_files (files s)))] (sorted_files (files s))) @
         [Print Rule]))"
proof -
  define ys where "ys = py_sorted_reverse fi_file_size_mb fs"
  have top: "sorted_files fs = take 10 ys"
    by (simp add: sorted_files_def ys_def)
  have srt: "sorted_wrt (\<lambda>a b. fi_file_size_mb b \<le> fi_file_size_mb a) ys"
    unfolding ys_def by (rule py_sorted_reverse_sorted)
  have split: "ys = take 10 ys @ drop 10 ys"
    by simp
  have len: "length (sorted_files fs) = min 10 (length fs)"
    by (simp add: top ys_def length_py_sorted_reverse min.commute)
  from srt split have both:
    "sorted_wrt (\<lambda>a b. fi_file_size_mb b \<le> fi_file_size_mb a) (take 10 ys @ drop 10 ys)"
    by simp
  then have desc: "sorted_wrt (\<lambda>a b. fi_file_size_mb b \<le> fi_file_size_mb a) (sorted_files fs)"
    unfolding top sorted_wrt_append by blast
  from both have cut: "\<forall>a \<in> set (take 10 ys). \<forall>b \<in> set (drop 10 ys).
      fi_file_size_mb b \<le> fi_file_size_mb a"
    unfolding sorted_wrt_append by blast
  have "mset (take 10 ys @ drop 10 ys) = mset fs"
    by (simp add: ys_def mset_py_sorted_reverse)
  with cut have greatest: "\<exists>others. mset (sorted_files fs @ others) = mset fs \<and>
      (\<forall>a \<in> set (sorted_files fs). \<forall>b \<in> set others.
         fi_file_size_mb b \<le> fi_file_size_mb a)"
    unfolding top by blast
  have stable: "prefix (filter (\<lambda>f. fi_file_size_mb f = k) (sorted_files fs))
               (filter (\<lambda>f. fi_file_size_mb f = k) fs)" for k
  proof -
    have "prefix (filter (\<lambda>f. fi_file_size_mb f = k) (take 10 ys))
        (filter (\<lambda>f. fi_file_size_mb f = k) ys)"
      by (rule filter_mono_prefix) (rule take_is_prefix)
    then show ?thesis
      by (simp add: top ys_def py_sorted_reverse_stable)
  qed
  have ret: "fst (print_summary s) = Inr ()"
    by (simp add: print_summary_def Let_def)
  have out: "files s \<noteq> [] \<longrightarrow>
      (\<exists>before. trace (snd (print_summary s)) =
         trace s @ before @ [Print TopLargestHeading] @
         map (\<lambda>(i, f). Print (TopLargestEntry i (fi_filename f) (fi_file_size_mb f)))
           (zip [1..<Suc (length (sorted_files (files s)))] (sorted_files (files s))) @
         [Print Rule])"
  proof
    assume ne: "files s \<noteq> []"
    let ?before = "[Print Rule, Print SummaryHeading, Print Rule,
        Print (TotalFiles (length (files s))),
        Print (TotalSize (py_round2 (sum_list (map fi_file_size_mb (files s))))),
        Print ByExtensionHeading] @
        map (\<lambda>(ext, n). Print (ExtensionCount (if ext = [] then latin1 ''no extension'' else ext) n))
          (take 10 (py_sorted_reverse snd (count_extensions (files s))))"
    from ne have "trace (snd (print_summary s)) =
         trace s @ ?before @ [Print TopLargestHeading] @
         map (\<lambda>(i, f). Print (TopLargestEntry i (fi_filename f) (fi_file_size_mb f)))
           (zip [1..<Suc (length (sorted_files (files s)))] (sorted_files (files s))) @
         [Print Rule]"
      by (simp add: print_summary_def Let_def)
    then show "\<exists>before. trace (snd (print_summary s)) =
         trace s @ before @ [Print TopLargestHeading] @
         map (\<lambda>(i, f). Print (TopLargestEntry i (fi_filename f) (fi_file_size_mb f)))
           (zip [1..<Suc (length (sorted_files (files s)))] (sorted_files (files s))) @
         [Print Rule]"
      by blast
  qed
  from len desc greatest stable print_summary_files ret out show ?thesis
    by blast
qed


theorem top10_largest_witness:
  "(let r = (\<lambda>n z. \<lparr>fi_filename = latin1 n, fi_message_id = 0, fi_date = [],
                      fi_sender = None, fi_caption = [], fi_file_size_mb = z, fi_message_url = []\<rparr>);
        fs = [r ''a'' 3, r ''b'' 1, r ''c'' 4, r ''d'' 1, r ''e'' 5, r ''f'' 9,
              r ''g'' 2, r ''h'' 6, r ''i'' 5, r ''j'' 3, r ''k'' 5, r ''l'' 8]
    in sorted_files fs =
         [r ''f'' 9, r ''l'' 8, r ''h'' 6, r ''e'' 5, r ''i'' 5, r ''k'' 5, r ''c'' 4,
          r ''a'' 3, r ''j'' 3, r ''g'' 2] \<and>
       length (sorted_files fs) = 10 \<and>
       sorted_wrt (\<lambda>a b. fi_file_size_mb b \<le> fi_file_size_mb a) (sorted_files fs) \<and>
       prefix (filter (\<lambda>f. fi_file_size_mb f = 5) (sorted_files fs))
         [r ''e'' 5, r ''i'' 5, r ''k'' 5] \<and>
       files (snd (print_summary \<lparr>files = fs, trace = []\<rparr>)) = fs)"
proof -
  define r where "r = (\<lambda>n z. \<lparr>fi_filename = latin1 n, fi_message_id = 0, fi_date = [],
      fi_sender = None, fi_caption = [], fi_file_size_mb = z, fi_message_url = []\<rparr>)"
  define fs where "fs = [r ''a'' 3, r ''b'' 1, r ''c'' 4, r ''d'' 1, r ''e'' 5, r ''f'' 9,
              r ''g'' 2, r ''h'' 6, r ''i'' 5, r ''j'' 3, r ''k'' 5, r ''l'' 8]"
  have sz [simp]: "fi_file_size_mb (r n z) = z" for n z
    by (simp add: r_def)
  have ev: "sorted_files fs =
         [r ''f'' 9, r ''l'' 8, r ''h'' 6, r ''e'' 5, r ''i'' 5, r ''k'' 5, r ''c'' 4,
          r ''a'' 3, r ''j'' 3, r ''g'' 2]"
    by (simp add: sorted_files_def py_sorted_reverse_def fs_def)
  have fl: "filter (\<lambda>f. fi_file_size_mb f = 5) fs = [r ''e'' 5, r ''i'' 5, r ''k'' 5]"
    by (simp add: fs_def)
  have ln: "min 10 (length fs) = 10"
    by (simp add: fs_def)
  note t = top10_largest [of fs "\<lparr>files = fs, trace = []\<rparr>"]
  from t ln have a: "length (sorted_files fs) = 10"
    by simp
  from t have b: "sorted_wrt (\<lambda>a b. fi_file_size_mb b \<le> fi_file_size_mb a) (sorted_files fs)"
    by blast
  from t have "prefix (filter (\<lambda>f. fi_file_size_mb f = 5) (sorted_files fs))
         (filter (\<lambda>f. fi_file_size_mb f = 5) fs)"
    by blast
  with fl have c: "prefix (filter (\<lambda>f. fi_file_size_mb f = 5) (sorted_files fs))
         [r ''e'' 5, r ''i'' 5, r ''k'' 5]"
    by simp
  from t have d: "files (snd (print_summary \<lparr>files = fs, trace = []\<rparr>)) = fs"
    by simp
  from ev a b c d show ?thesis
    unfolding Let_def fs_def r_def by blast
qed

end
